theory Spec2Isabelle
  imports Main
begin

section \<open>Strings of the client\<close>

text \<open>
  The client is TypeScript; its strings are modelled as \<open>string\<close> (lists of 8-bit
  characters, read as code units below 256). Only three string primitives of the
  runtime are used by the code under study: \<open>trim\<close>, the two regular expressions of
  \<open>extractContext\<close>, and decimal printing of an HTTP status inside a template literal.
\<close>

definition newline :: char where
  "newline = CHR 0x0A"

definition is_space :: "char \<Rightarrow> bool" where
  \<comment> \<open>White space and line terminators stripped by \<open>String.prototype.trim\<close>, below 256:
      TAB, LF, VT, FF, CR, SP and NBSP.\<close>
  "is_space c = (of_char c \<in> {9, 10, 11, 12, 13, 32, 160 :: nat})"

definition trim :: "string \<Rightarrow> string" where
  "trim s = rev (dropWhile is_space (rev (dropWhile is_space s)))"

definition is_word_char :: "char \<Rightarrow> bool" where
  \<comment> \<open>The class \<open>\w\<close>: ASCII letters, digits and the underscore.\<close>
  "is_word_char c =
     (let n = (of_char c :: nat)
      in (65 \<le> n \<and> n \<le> 90) \<or> (97 \<le> n \<and> n \<le> 122) \<or> (48 \<le> n \<and> n \<le> 57) \<or> n = 95)"

definition canonicalize :: "char \<Rightarrow> char" where
  \<comment> \<open>Case folding of the \<open>i\<close> flag (no \<open>u\<close> flag): a character is upper-cased, and a
      character from 128 on is never folded onto an ASCII one, so only \<open>a\<close>..\<open>z\<close> move.\<close>
  "canonicalize c =
     (let n = (of_char c :: nat) in if 97 \<le> n \<and> n \<le> 122 then char_of (n - 32) else c)"

section \<open>Context extraction (App.tsx, extractContext)\<close>

definition fence :: string where
  "fence = ''```''"

fun find_close :: "string \<Rightarrow> string option" where
  \<comment> \<open>The lazy group \<open>([\s\S]*?)\<close> followed by the closing fence: the text before the
      first fence of the rest, if there is one.\<close>
  "find_close [] = None"
| "find_close (c # cs) =
     (if take 3 (c # cs) = fence then Some []
      else map_option ((#) c) (find_close cs))"

definition match_at :: "string \<Rightarrow> (string option \<times> string) option" where
  \<comment> \<open>One attempt of \<open>/```(\w+)?\n([\s\S]*?)```/\<close> at the start of the text. The greedy
      \<open>\w+\<close> takes the whole run of word characters: after a shorter run, or with the
      group skipped before a word character, the next character is not the line feed
      the pattern asks for, so backtracking finds nothing more. Group 1 is \<open>None\<close>
      (undefined) when the run is empty.\<close>
  "match_at s =
     (if take 3 s = fence then
        (let r = drop 3 s; w = takeWhile is_word_char r
         in case dropWhile is_word_char r of
              [] \<Rightarrow> None
            | c # body \<Rightarrow>
                if c = newline then
                  (case find_close body of
                     None \<Rightarrow> None
                   | Some snippet \<Rightarrow> Some (if w = [] then None else Some w, snippet))
                else None)
      else None)"

fun codeMatch :: "string \<Rightarrow> (string option \<times> string) option" where
  \<comment> \<open>\<open>message.match(...)\<close>: the leftmost position where an attempt succeeds.\<close>
  "codeMatch [] = None"
| "codeMatch (c # cs) =
     (case match_at (c # cs) of Some m \<Rightarrow> Some m | None \<Rightarrow> codeMatch cs)"

definition error_keywords :: "string list" where
  "error_keywords = [''error'', ''exception'', ''failed'', ''undefined'', ''null'', ''cannot'']"

fun prefix_ci :: "string \<Rightarrow> string \<Rightarrow> bool" where
  "prefix_ci [] s = True"
| "prefix_ci (p # ps) [] = False"
| "prefix_ci (p # ps) (c # cs) = (canonicalize p = canonicalize c \<and> prefix_ci ps cs)"

fun errorMatch :: "string \<Rightarrow> bool" where
  \<comment> \<open>\<open>message.match(/(error|exception|failed|undefined|null|cannot)/i)\<close> is not null.\<close>
  "errorMatch [] = False"
| "errorMatch (c # cs) =
     (list_ex (\<lambda>k. prefix_ci k (c # cs)) error_keywords \<or> errorMatch cs)"

record chat_context =
  codeSnippet :: "string option"
  errorMessage :: "string option"
  language :: "string option"
  framework :: "string option"

definition empty_context :: chat_context where
  "empty_context = \<lparr>codeSnippet = None, errorMessage = None, language = None, framework = None\<rparr>"

definition keys :: "chat_context \<Rightarrow> string list" where
  \<comment> \<open>\<open>Object.keys(context)\<close>: the fields that have been assigned.\<close>
  "keys c =
     (if language c \<noteq> None then [''language''] else []) @
     (if codeSnippet c \<noteq> None then [''codeSnippet''] else []) @
     (if errorMessage c \<noteq> None then [''errorMessage''] else []) @
     (if framework c \<noteq> None then [''framework''] else [])"

definition extractContext :: "string \<Rightarrow> string \<Rightarrow> chat_context option" where
  "extractContext message category =
     (let context1 =
            (case codeMatch message of
               None \<Rightarrow> empty_context
             | Some (g1, g2) \<Rightarrow>
                 empty_context
                   \<lparr>language := Some (case g1 of
                                       None \<Rightarrow> ''javascript''
                                     | Some l \<Rightarrow> if l = [] then ''javascript'' else l),
                    codeSnippet := Some g2\<rparr>);
          context2 =
            (if errorMatch message \<and> category = ''bug-fix''
             then context1\<lparr>errorMessage := Some message\<rparr>
             else context1)
      in if length (keys context2) > 0 then Some context2 else None)"

section \<open>API client (services/api.ts)\<close>

text \<open>
  \<open>ApiError\<close> carries a message and a code (its \<open>details\<close> field is stored and never
  read by the client, and is left out). A thrown value is either an \<open>ApiError\<close> or
  something else; the hooks test \<open>instanceof ApiError\<close>.
\<close>

record api_error =
  err_message :: string
  err_code :: string

datatype thrown = ApiError api_error | OtherError

text \<open>
  What \<open>response.json()\<close> yields on the error path, where the value is read as
  \<open>any\<close>: the promise rejects, or the body is the JSON \<open>null\<close>, or it is some other JSON
  value, of which only the properties \<open>message\<close> and \<open>code\<close> are read (\<open>None\<close> when the
  value has no such property).
\<close>

datatype error_json =
    Json_reject
  | Json_null
  | Json_value "string option" "string option"

text \<open>
  A response: \<open>response.ok\<close> is the constructor. A successful response carries its body
  as parsed at the endpoint's type \<open>T\<close> (\<open>None\<close> when \<open>response.json()\<close> rejects); a
  non-success response carries \<open>status\<close>, \<open>statusText\<close> and the body as the error path
  sees it. \<open>fetch\<close> itself may reject.
\<close>

datatype 'a response =
    Response_ok "'a option"
  | Response_not_ok nat string error_json

datatype 'a fetch_result = Fetch_rejected | Fetch_resolved "'a response"

definition digit_char :: "nat \<Rightarrow> char" where
  "digit_char d = char_of (48 + d)"

fun show_nat :: "nat \<Rightarrow> string" where
  \<comment> \<open>Decimal printing of a number inside a template literal.\<close>
  "show_nat n = (if n < 10 then [digit_char n] else show_nat (n div 10) @ [digit_char (n mod 10)])"

declare show_nat.simps [simp del]

definition http_message :: "nat \<Rightarrow> string \<Rightarrow> string" where
  "http_message status statusText = ''HTTP '' @ show_nat status @ '': '' @ statusText"

definition or_else :: "string option \<Rightarrow> string \<Rightarrow> string" where
  \<comment> \<open>\<open>a || b\<close> on a property that is a string or undefined: the empty string is falsy.\<close>
  "or_else a b = (case a of None \<Rightarrow> b | Some s \<Rightarrow> if s = [] then b else s)"

definition network_error :: api_error where
  "network_error =
     \<lparr>err_message = ''Failed to connect to the AI service. Please check your connection.'',
      err_code = ''NETWORK_ERROR''\<rparr>"

definition request :: "'a fetch_result \<Rightarrow> api_error + 'a" where
  \<comment> \<open>The body of \<open>request\<close> after \<open>fetch\<close> has settled. On the error path a rejected
      \<open>json()\<close> is replaced by the empty object; reading \<open>message\<close> of \<open>null\<close> raises a
      TypeError, which the outer \<open>catch\<close> turns into the network error.\<close>
  "request f =
     (case f of
        Fetch_rejected \<Rightarrow> Inl network_error
      | Fetch_resolved (Response_not_ok status statusText j) \<Rightarrow>
          (case j of
             Json_null \<Rightarrow> Inl network_error
           | Json_reject \<Rightarrow>
               Inl \<lparr>err_message = or_else None (http_message status statusText),
                    err_code = or_else None ''HTTP_ERROR''\<rparr>
           | Json_value m c \<Rightarrow>
               Inl \<lparr>err_message = or_else m (http_message status statusText),
                    err_code = or_else c ''HTTP_ERROR''\<rparr>)
      | Fetch_resolved (Response_ok None) \<Rightarrow> Inl network_error
      | Fetch_resolved (Response_ok (Some v)) \<Rightarrow> Inr v)"

definition thrown_of :: "api_error + 'a \<Rightarrow> thrown + 'a" where
  \<comment> \<open>What a caller of \<open>request\<close> catches: \<open>request\<close> only throws \<open>ApiError\<close>.\<close>
  "thrown_of r = (case r of Inl e \<Rightarrow> Inl (ApiError e) | Inr v \<Rightarrow> Inr v)"

text \<open>
  \<open>request\<close> returns the parsed body unchecked, cast to the endpoint's type \<open>T\<close>. The
  operations of the client use it on bodies that are the JSON \<open>null\<close> or a value of
  type \<open>T\<close> (other ill-typed bodies are not modelled).
\<close>

datatype 'a body = Body_null | Body 'a

subsection \<open>Messages and timestamps\<close>

datatype sender = User | Ai

datatype category = Bug_fix | Learning | General

datatype message_type = Text | Code | File

text \<open>
  A \<open>Date\<close> is either \<open>new Date()\<close>, the reading of the clock when it was built, or
  \<open>new Date(s)\<close>, the point in time that the string \<open>s\<close> denotes.
\<close>

datatype date = Clock nat | Date_of string

text \<open>
  \<open>ChatMessage\<close>, with the metadata left abstract (it is only passed through). The wire
  form has the same fields with a timestamp that is a string or absent.
\<close>

record 'm chat_message =
  msg_id :: string
  msg_content :: string
  msg_sender :: sender
  msg_timestamp :: date
  msg_type :: "message_type option"
  msg_category :: "category option"
  msg_metadata :: "'m option"

record 'm wire_message =
  wire_id :: string
  wire_content :: string
  wire_sender :: sender
  wire_timestamp :: "string option"
  wire_type :: "message_type option"
  wire_category :: "category option"
  wire_metadata :: "'m option"

definition to_chat_message :: "nat \<Rightarrow> 'm wire_message \<Rightarrow> 'm chat_message" where
  \<comment> \<open>\<open>{...m, timestamp: m.timestamp ? new Date(m.timestamp) : new Date()}\<close>, the clock
      reading \<open>now\<close> at this call; an empty string is falsy.\<close>
  "to_chat_message now m =
     \<lparr>msg_id = wire_id m, msg_content = wire_content m, msg_sender = wire_sender m,
      msg_timestamp =
        (case wire_timestamp m of
           None \<Rightarrow> Clock now
         | Some s \<Rightarrow> if s = [] then Clock now else Date_of s),
      msg_type = wire_type m, msg_category = wire_category m,
      msg_metadata = wire_metadata m\<rparr>"

fun map_messages :: "(nat \<Rightarrow> nat) \<Rightarrow> nat \<Rightarrow> 'm wire_message list \<Rightarrow> 'm chat_message list" where
  \<comment> \<open>\<open>raw.map(...)\<close>; \<open>clock i\<close> is the reading of the clock while the callback runs
      on the element of index \<open>i\<close>.\<close>
  "map_messages clock i [] = []"
| "map_messages clock i (m # ms) = to_chat_message (clock i) m # map_messages clock (Suc i) ms"

definition getConversation ::
  "(nat \<Rightarrow> nat) \<Rightarrow> 'm wire_message list body fetch_result \<Rightarrow> thrown + 'm chat_message list" where
  \<comment> \<open>\<open>raw.map\<close> runs after \<open>request\<close> has returned, outside its \<open>try\<close>: on a \<open>null\<close>
      body it raises a TypeError.\<close>
  "getConversation clock f =
     (case request f of
        Inl e \<Rightarrow> Inl (ApiError e)
      | Inr Body_null \<Rightarrow> Inl OtherError
      | Inr (Body raw) \<Rightarrow> Inr (map_messages clock 0 raw))"

section \<open>Chat session (hooks/useChat)\<close>

record 'm chat_response =
  res_id :: string
  res_content :: string
  res_timestamp :: string
  res_metadata :: 'm

record chat_request =
  req_message :: string
  req_conversationId :: string
  req_category :: category
  req_context :: "chat_context option"

text \<open>
  The state of the hook: its three state cells, the ref holding the current
  \<open>AbortController\<close>, and the controllers allocated so far (a controller is its index
  in \<open>controllers\<close>, the entry is its \<open>aborted\<close> flag).
\<close>

record 'm chat_state =
  messages :: "'m chat_message list"
  isLoading :: bool
  isConnected :: bool
  abortControllerRef :: "nat option"
  controllers :: "bool list"

definition initial_chat :: "'m chat_state" where
  "initial_chat =
     \<lparr>messages = [], isLoading = False, isConnected = True,
      abortControllerRef = None, controllers = []\<rparr>"

text \<open>
  \<open>sendMessage\<close> is a closure built at a render: it reads \<open>conversationId\<close> and
  \<open>isLoading\<close> as they were at that render.
\<close>

record send_closure =
  cl_conversationId :: string
  cl_isLoading :: bool

definition render :: "string \<Rightarrow> 'm chat_state \<Rightarrow> send_closure" where
  "render conversationId st = \<lparr>cl_conversationId = conversationId, cl_isLoading = isLoading st\<rparr>"

definition abort_current :: "'m chat_state \<Rightarrow> 'm chat_state" where
  \<comment> \<open>\<open>if (abortControllerRef.current) abortControllerRef.current.abort()\<close>\<close>
  "abort_current st =
     (case abortControllerRef st of
        None \<Rightarrow> st
      | Some c \<Rightarrow> st\<lparr>controllers := (controllers st)[c := True]\<rparr>)"

definition new_controller :: "'m chat_state \<Rightarrow> 'm chat_state" where
  \<comment> \<open>\<open>abortControllerRef.current = new AbortController()\<close>\<close>
  "new_controller st =
     st\<lparr>abortControllerRef := Some (length (controllers st)),
        controllers := controllers st @ [False]\<rparr>"

definition sendMessage_begin ::
  "send_closure \<Rightarrow> string \<Rightarrow> category \<Rightarrow> chat_context option \<Rightarrow> nat \<Rightarrow> nat \<Rightarrow>
   'm chat_state \<Rightarrow> 'm chat_state \<times> chat_request option" where
  \<comment> \<open>\<open>sendMessage\<close> up to its \<open>await\<close>: the new state and the request handed to
      \<open>apiService.sendMessage\<close>, if one is. \<open>t_id\<close> is the reading of \<open>Date.now()\<close>,
      \<open>t_stamp\<close> that of \<open>new Date()\<close>. The request carries no abort signal.\<close>
  "sendMessage_begin cl content cat ctx t_id t_stamp st =
     (if trim content = [] \<or> cl_isLoading cl then (st, None)
      else
        (let userMessage =
               \<lparr>msg_id = ''user-'' @ show_nat t_id, msg_content = content, msg_sender = User,
                msg_timestamp = Clock t_stamp, msg_type = None, msg_category = Some cat,
                msg_metadata = None\<rparr>;
             st1 = st\<lparr>messages := messages st @ [userMessage]\<rparr>;
             st2 = st1\<lparr>isLoading := True\<rparr>;
             st3 = new_controller (abort_current st2)
         in (st3,
             Some \<lparr>req_message = content, req_conversationId = cl_conversationId cl,
                   req_category = cat, req_context = ctx\<rparr>)))"

definition sendMessage_finally :: "'m chat_state \<Rightarrow> 'm chat_state" where
  "sendMessage_finally st = st\<lparr>isLoading := False, abortControllerRef := None\<rparr>"

definition sendMessage_resume ::
  "category \<Rightarrow> thrown + 'm chat_response \<Rightarrow> nat \<Rightarrow> nat \<Rightarrow>
   'm chat_state \<Rightarrow> 'm chat_state \<times> api_error option" where
  \<comment> \<open>\<open>sendMessage\<close> from its \<open>await\<close> on, run when the request settles, on the state
      as it is then: the new state and the argument of the \<open>onError\<close> call, if any.\<close>
  "sendMessage_resume cat outcome t_id t_stamp st =
     (case outcome of
        Inr response \<Rightarrow>
          (let aiMessage =
                 \<lparr>msg_id = res_id response, msg_content = res_content response,
                  msg_sender = Ai, msg_timestamp = Date_of (res_timestamp response),
                  msg_type = None, msg_category = Some cat,
                  msg_metadata = Some (res_metadata response)\<rparr>;
               st1 = st\<lparr>messages := messages st @ [aiMessage]\<rparr>;
               st2 = st1\<lparr>isConnected := True\<rparr>
           in (sendMessage_finally st2, None))
      | Inl (ApiError error) \<Rightarrow>
          (let st1 = st\<lparr>isConnected := (err_code error \<noteq> ''NETWORK_ERROR'')\<rparr>;
               errorMessage =
                 \<lparr>msg_id = ''error-'' @ show_nat t_id,
                  msg_content = ''Sorry, I encountered an error: '' @ err_message error
                                @ ''. Please try again.'',
                  msg_sender = Ai, msg_timestamp = Clock t_stamp, msg_type = None,
                  msg_category = Some General, msg_metadata = None\<rparr>;
               st2 = st1\<lparr>messages := messages st1 @ [errorMessage]\<rparr>
           in (sendMessage_finally st2, Some error))
      | Inl OtherError \<Rightarrow> (sendMessage_finally st, None))"

definition loadConversation_begin :: "'m chat_state \<Rightarrow> 'm chat_state" where
  "loadConversation_begin st = st\<lparr>isLoading := True\<rparr>"

definition loadConversation_resume ::
  "thrown + 'm chat_message list \<Rightarrow> 'm chat_state \<Rightarrow> 'm chat_state \<times> api_error option" where
  "loadConversation_resume outcome st =
     (case outcome of
        Inr conversationMessages \<Rightarrow>
          (st\<lparr>messages := conversationMessages, isConnected := True, isLoading := False\<rparr>, None)
      | Inl (ApiError error) \<Rightarrow>
          (st\<lparr>isConnected := (err_code error \<noteq> ''NETWORK_ERROR''), isLoading := False\<rparr>,
           Some error)
      | Inl OtherError \<Rightarrow> (st\<lparr>isLoading := False\<rparr>, None))"

definition clearMessages :: "'m chat_state \<Rightarrow> 'm chat_state" where
  "clearMessages st = st\<lparr>messages := []\<rparr>"

section \<open>Conversation registry (hooks/useConversations)\<close>

record conversation_summary =
  conv_id :: string
  conv_title :: string
  conv_lastMessage :: string
  conv_category :: category
  conv_messageCount :: nat
  conv_createdAt :: string
  conv_updatedAt :: string

record conversations_state =
  conversations :: "conversation_summary list"
  conversationsLoading :: bool
  conversationsError :: "string option"

text \<open>
  The answers of the API client, as the registry's operations would get them now:
  one field per operation of \<open>apiService\<close> that the hook calls.
\<close>

record api_service =
  api_getConversations :: "thrown + conversation_summary list"
  api_createConversation :: "string \<Rightarrow> category \<Rightarrow> thrown + conversation_summary"
  api_deleteConversation :: "string \<Rightarrow> thrown + unit"
  api_searchConversations :: "string \<Rightarrow> thrown + conversation_summary list"

definition loadConversations :: "api_service \<Rightarrow> conversations_state \<Rightarrow> conversations_state" where
  "loadConversations api st =
     (let st1 = st\<lparr>conversationsLoading := True, conversationsError := None\<rparr>;
          st2 =
            (case api_getConversations api of
               Inr data \<Rightarrow> st1\<lparr>conversations := data\<rparr>
             | Inl (ApiError err) \<Rightarrow> st1\<lparr>conversationsError := Some (err_message err)\<rparr>
             | Inl OtherError \<Rightarrow> st1\<lparr>conversationsError := Some ''Failed to load conversations''\<rparr>)
      in st2\<lparr>conversationsLoading := False\<rparr>)"

definition createConversation ::
  "api_service \<Rightarrow> string \<Rightarrow> category \<Rightarrow> conversations_state \<Rightarrow>
   conversations_state \<times> (thrown + conversation_summary)" where
  \<comment> \<open>The new state, and what the caller gets: the new summary, or the error thrown
      again.\<close>
  "createConversation api title cat st =
     (case api_createConversation api title cat of
        Inr newConversation \<Rightarrow>
          (st\<lparr>conversations := newConversation # conversations st\<rparr>, Inr newConversation)
      | Inl (ApiError err) \<Rightarrow> (st\<lparr>conversationsError := Some (err_message err)\<rparr>, Inl (ApiError err))
      | Inl OtherError \<Rightarrow> (st, Inl OtherError))"

definition deleteConversation ::
  "api_service \<Rightarrow> string \<Rightarrow> conversations_state \<Rightarrow> conversations_state" where
  "deleteConversation api id' st =
     (case api_deleteConversation api id' of
        Inr _ \<Rightarrow> st\<lparr>conversations := filter (\<lambda>conv. conv_id conv \<noteq> id') (conversations st)\<rparr>
      | Inl (ApiError err) \<Rightarrow> st\<lparr>conversationsError := Some (err_message err)\<rparr>
      | Inl OtherError \<Rightarrow> st)"

definition searchConversations ::
  "api_service \<Rightarrow> string \<Rightarrow> conversations_state \<Rightarrow> conversations_state" where
  "searchConversations api query st =
     (if trim query = [] then loadConversations api st
      else
        (let st1 = st\<lparr>conversationsLoading := True\<rparr>;
             st2 =
               (case api_searchConversations api query of
                  Inr results \<Rightarrow> st1\<lparr>conversations := results\<rparr>
                | Inl (ApiError err) \<Rightarrow> st1\<lparr>conversationsError := Some (err_message err)\<rparr>
                | Inl OtherError \<Rightarrow> st1)
         in st2\<lparr>conversationsLoading := False\<rparr>))"

section \<open>The other operations of the API client\<close>

text \<open>
  Each operation hands its endpoint and options to \<open>request\<close>; what comes back depends
  on the outcome of \<open>fetch\<close> only, which is the argument here. \<open>sendMessage\<close> rebuilds
  the response with \<open>{...res, timestamp: res.timestamp}\<close> after \<open>request\<close> has
  returned, outside its \<open>try\<close>: reading \<open>timestamp\<close> of \<open>null\<close> raises a TypeError. The
  five others return the result of \<open>request\<close> as it is.
\<close>

definition apiService_sendMessage ::
  "'m chat_response body fetch_result \<Rightarrow> thrown + 'm chat_response" where
  "apiService_sendMessage f =
     (case request f of
        Inl e \<Rightarrow> Inl (ApiError e)
      | Inr Body_null \<Rightarrow> Inl OtherError
      | Inr (Body res) \<Rightarrow> Inr (res\<lparr>res_timestamp := res_timestamp res\<rparr>))"

definition apiService_getConversations ::
  "conversation_summary list body fetch_result \<Rightarrow> thrown + conversation_summary list body" where
  "apiService_getConversations f = thrown_of (request f)"

definition apiService_createConversation ::
  "conversation_summary body fetch_result \<Rightarrow> thrown + conversation_summary body" where
  "apiService_createConversation f = thrown_of (request f)"

definition apiService_deleteConversation :: "unit body fetch_result \<Rightarrow> thrown + unit body" where
  "apiService_deleteConversation f = thrown_of (request f)"

definition apiService_searchConversations ::
  "conversation_summary list body fetch_result \<Rightarrow> thrown + conversation_summary list body" where
  "apiService_searchConversations f = thrown_of (request f)"

definition apiService_healthCheck ::
  "(string \<times> string list) body fetch_result \<Rightarrow> thrown + (string \<times> string list) body" where
  "apiService_healthCheck f = thrown_of (request f)"

section \<open>Notions of the specification\<close>

fun null_body :: "'a body fetch_result \<Rightarrow> bool" where
  \<comment> \<open>The response came with the JSON \<open>null\<close> as its body.\<close>
  "null_body (Fetch_resolved (Response_ok (Some Body_null))) = True"
| "null_body (Fetch_resolved (Response_not_ok status statusText Json_null)) = True"
| "null_body f = False"

fun not_ok :: "'a fetch_result \<Rightarrow> bool" where
  \<comment> \<open>\<open>fetch\<close> resolved with a non-success HTTP status.\<close>
  "not_ok (Fetch_resolved (Response_not_ok status statusText j)) = True"
| "not_ok f = False"

definition classifies_failures :: "('a body fetch_result \<Rightarrow> thrown + 'b) \<Rightarrow> bool" where
  \<comment> \<open>The operation \<open>op\<close> fails as the amended claim on error classification says.\<close>
  "classifies_failures op \<longleftrightarrow>
     (\<forall>status statusText m c. m \<noteq> [] \<and> c \<noteq> [] \<longrightarrow>
        op (Fetch_resolved (Response_not_ok status statusText (Json_value (Some m) (Some c)))) =
          Inl (ApiError \<lparr>err_message = m, err_code = c\<rparr>))
     \<and> (\<forall>status statusText m c.
        op (Fetch_resolved (Response_not_ok status statusText (Json_value m c))) =
          Inl (ApiError
            \<lparr>err_message = or_else m (''HTTP '' @ show_nat status @ '': '' @ statusText),
             err_code = or_else c ''HTTP_ERROR''\<rparr>))
     \<and> (\<forall>status statusText.
        op (Fetch_resolved (Response_not_ok status statusText Json_reject)) =
          Inl (ApiError \<lparr>err_message = ''HTTP '' @ show_nat status @ '': '' @ statusText,
                          err_code = ''HTTP_ERROR''\<rparr>))
     \<and> op Fetch_rejected = Inl (ApiError network_error)
     \<and> op (Fetch_resolved (Response_ok None)) = Inl (ApiError network_error)
     \<and> (\<forall>f t. op f = Inl t \<and> \<not> null_body f \<and> \<not> not_ok f \<longrightarrow> t = ApiError network_error)
     \<and> (\<forall>f t. op f = Inl t \<and> \<not> null_body f \<longrightarrow> (\<exists>e. t = ApiError e))"

subsection \<open>A session with its first send outstanding\<close>


definition lower_char :: "char \<Rightarrow> char" where
  "lower_char c =
     (let n = (of_char c :: nat) in if 65 \<le> n \<and> n \<le> 90 then char_of (n + 32) else c)"

definition contains_ci :: "string \<Rightarrow> string \<Rightarrow> bool" where
  \<comment> \<open>The text contains the (lower-case) keyword, whatever the case of its letters.\<close>
  "contains_ci k s = (\<exists>pre mid post. s = pre @ mid @ post \<and> map lower_char mid = k)"

section \<open>The keyword test of context extraction\<close>

lemma of_char_canonicalize:
  "(of_char (canonicalize c) :: nat) =
     (if 97 \<le> (of_char c :: nat) \<and> (of_char c :: nat) \<le> 122 then of_char c - 32 else of_char c)"
  by (auto simp: canonicalize_def Let_def)

lemma of_char_lower_char:
  "(of_char (lower_char c) :: nat) =
     (if 65 \<le> (of_char c :: nat) \<and> (of_char c :: nat) \<le> 90 then of_char c + 32 else of_char c)"
  by (simp add: lower_char_def Let_def)

lemma canonicalize_eq_iff:
  "canonicalize a = canonicalize b \<longleftrightarrow> lower_char a = lower_char b"
proof -
  have "canonicalize a = canonicalize b \<longleftrightarrow>
        (of_char (canonicalize a) :: nat) = of_char (canonicalize b)"
    by simp
  also have "\<dots> \<longleftrightarrow> (of_char (lower_char a) :: nat) = of_char (lower_char b)"
  proof -
    define m n where "m = (of_char a :: nat)" and "n = (of_char b :: nat)"
    have "((if 97 \<le> m \<and> m \<le> 122 then m - 32 else m) = (if 97 \<le> n \<and> n \<le> 122 then n - 32 else n))
          \<longleftrightarrow> ((if 65 \<le> m \<and> m \<le> 90 then m + 32 else m) = (if 65 \<le> n \<and> n \<le> 90 then n + 32 else n))"
      by (simp split: if_splits) arith
    then show ?thesis
      unfolding of_char_canonicalize of_char_lower_char m_def n_def .
  qed
  also have "\<dots> \<longleftrightarrow> lower_char a = lower_char b"
    by simp
  finally show ?thesis .
qed

lemma prefix_ci_iff:
  "prefix_ci k s \<longleftrightarrow>
     (\<exists>mid post. s = mid @ post \<and> map canonicalize mid = map canonicalize k)"
proof (induction k s rule: prefix_ci.induct)
  case (1 s)
  then show ?case by simp
next
  case (2 p ps)
  then show ?case by simp
next
  case (3 p ps c cs)
  show ?case
  proof
    assume "prefix_ci (p # ps) (c # cs)"
    then obtain mid post where "cs = mid @ post" "map canonicalize mid = map canonicalize ps"
      and "canonicalize p = canonicalize c"
      using 3 by auto
    then have "c # cs = (c # mid) @ post \<and> map canonicalize (c # mid) = map canonicalize (p # ps)"
      by simp
    then show "\<exists>mid post. c # cs = mid @ post \<and> map canonicalize mid = map canonicalize (p # ps)"
      by blast
  next
    assume "\<exists>mid post. c # cs = mid @ post \<and> map canonicalize mid = map canonicalize (p # ps)"
    then obtain mid post where *: "c # cs = mid @ post" "map canonicalize mid = map canonicalize (p # ps)"
      by blast
    then obtain m ms where "mid = m # ms" by (cases mid) auto
    with * have "m = c" "cs = ms @ post" "canonicalize c = canonicalize p"
      "map canonicalize ms = map canonicalize ps" by auto
    then show "prefix_ci (p # ps) (c # cs)" using 3 by auto
  qed
qed

lemma errorMatch_iff:
  "errorMatch s \<longleftrightarrow> (\<exists>k\<in>set error_keywords. \<exists>pre rest. s = pre @ rest \<and> prefix_ci k rest)"
proof (induction s)
  case Nil
  then show ?case by (simp add: error_keywords_def)
next
  case (Cons c cs)
  show ?case
  proof
    assume "errorMatch (c # cs)"
    then consider "\<exists>k\<in>set error_keywords. prefix_ci k (c # cs)" | "errorMatch cs"
      by (auto simp: list_ex_iff)
    then show "\<exists>k\<in>set error_keywords. \<exists>pre rest. c # cs = pre @ rest \<and> prefix_ci k rest"
    proof cases
      case 1
      then show ?thesis by (metis append_Nil)
    next
      case 2
      then obtain k pre rest where "k \<in> set error_keywords" "cs = pre @ rest" "prefix_ci k rest"
        using Cons by blast
      then have "c # cs = (c # pre) @ rest" by simp
      then show ?thesis using \<open>k \<in> set error_keywords\<close> \<open>prefix_ci k rest\<close> by blast
    qed
  next
    assume "\<exists>k\<in>set error_keywords. \<exists>pre rest. c # cs = pre @ rest \<and> prefix_ci k rest"
    then obtain k pre rest where k: "k \<in> set error_keywords" and eq: "c # cs = pre @ rest"
      and p: "prefix_ci k rest" by blast
    show "errorMatch (c # cs)"
    proof (cases pre)
      case Nil
      then show ?thesis using k eq p by (auto simp: list_ex_iff)
    next
      case (Cons a pre')
      then have "cs = pre' @ rest" using eq by simp
      then have "errorMatch cs" using Cons.IH k p by blast
      then show ?thesis by simp
    qed
  qed
qed

lemma keyword_lower: "k \<in> set error_keywords \<Longrightarrow> map lower_char k = k"
  by (auto simp: error_keywords_def lower_char_def)

lemma map_canonicalize_eq_iff:
  "map canonicalize xs = map canonicalize ys \<longleftrightarrow> map lower_char xs = map lower_char ys"
proof (induction xs arbitrary: ys)
  case Nil
  then show ?case by simp
next
  case (Cons x xs)
  then show ?case by (cases ys) (simp_all add: canonicalize_eq_iff)
qed

lemma errorMatch_contains:
  "errorMatch s \<longleftrightarrow> (\<exists>k\<in>set error_keywords. contains_ci k s)"
proof -
  have "(\<exists>pre rest. s = pre @ rest \<and> prefix_ci k rest) \<longleftrightarrow> contains_ci k s"
    if "k \<in> set error_keywords" for k
    unfolding prefix_ci_iff contains_ci_def map_canonicalize_eq_iff keyword_lower [OF that]
    by auto
  then show ?thesis unfolding errorMatch_iff by blast
qed

section \<open>The fenced code block of context extraction\<close>

lemma find_close_fence: "\<exists>snippet. find_close (body @ fence @ rest) = Some snippet"
proof (induction body)
  case Nil
  then show ?case by (simp add: fence_def)
next
  case (Cons c cs)
  then show ?case by auto
qed

lemma not_word_newline: "\<not> is_word_char newline"
  by (simp add: is_word_char_def newline_def)

lemma match_at_untagged:
  "\<exists>snippet. match_at (fence @ newline # body @ fence @ rest) = Some (None, snippet)"
proof -
  obtain snippet where "find_close (body @ fence @ rest) = Some snippet"
    using find_close_fence by blast
  then show ?thesis
    by (simp add: match_at_def fence_def not_word_newline)
qed

lemma codeMatch_untagged:
  "\<exists>snippet. codeMatch (fence @ newline # body @ fence @ rest) = Some (None, snippet)"
proof -
  obtain snippet where m: "match_at (fence @ newline # body @ fence @ rest) = Some (None, snippet)"
    using match_at_untagged by blast
  have "fence @ newline # body @ fence @ rest = CHR 0x60 # drop 1 (fence @ newline # body @ fence @ rest)"
    by (simp add: fence_def)
  then have "codeMatch (fence @ newline # body @ fence @ rest) =
         codeMatch (CHR 0x60 # drop 1 (fence @ newline # body @ fence @ rest))"
    by simp
  also have "\<dots> = Some (None, snippet)"
    using m by (simp add: fence_def)
  finally show ?thesis by blast
qed

lemma extractContext_python_block: "extractContext ''```python\<newline>x=1\<newline>```'' ''general'' =
        Some \<lparr>codeSnippet = Some ''x=1\<newline>'', errorMessage = None,
              language = Some ''python'', framework = None\<rparr>"
  by code_simp

lemma extractContext_failed_undefined: "extractContext ''it failed with undefined'' ''bug-fix'' =
        Some \<lparr>codeSnippet = None, errorMessage = Some ''it failed with undefined'',
              language = None, framework = None\<rparr>"
  by code_simp

lemma extractContext_hello: "extractContext ''hello'' ''general'' = None"
  by code_simp

lemma errorMessage_populated:
  "(\<exists>ctx. extractContext message category = Some ctx \<and> errorMessage ctx \<noteq> None) \<longleftrightarrow>
   (category = ''bug-fix'' \<and> (\<exists>k\<in>set error_keywords. contains_ci k message))"
  unfolding errorMatch_contains [symmetric]
  by (auto simp: extractContext_def Let_def keys_def empty_context_def split: option.splits)

lemma errorMessage_value:
  "extractContext message category = Some ctx \<Longrightarrow> errorMessage ctx \<noteq> None \<Longrightarrow> errorMessage ctx = Some message"
  by (auto simp: extractContext_def Let_def keys_def empty_context_def split: option.splits if_splits)

section \<open>Context extraction: examples and the error message\<close>

text \<open>
  Claim C3. Context extraction on the three inputs of the specification: a python
  block with category general gives language \<open>python\<close> and snippet \<open>x=1\<close> followed by a
  line feed, and no error message; \<open>it failed with undefined\<close> with category bug-fix
  gives a context whose error message is the whole text; \<open>hello\<close> with category general
  gives no context at all. For every text and category, the error message is populated
  exactly when the category is bug-fix and the text contains one of the six keywords
  in any letter case, and it is then the whole text.
\<close>

theorem extractContext_examples_and_errorMessage:
  "extractContext ''```python\<newline>x=1\<newline>```'' ''general'' =
     Some \<lparr>codeSnippet = Some ''x=1\<newline>'', errorMessage = None,
           language = Some ''python'', framework = None\<rparr>
   \<and> extractContext ''it failed with undefined'' ''bug-fix'' =
     Some \<lparr>codeSnippet = None, errorMessage = Some ''it failed with undefined'',
           language = None, framework = None\<rparr>
   \<and> extractContext ''hello'' ''general'' = None
   \<and> ((\<exists>ctx. extractContext message category = Some ctx \<and> errorMessage ctx \<noteq> None) \<longleftrightarrow>
        (category = ''bug-fix'' \<and> (\<exists>k\<in>set error_keywords. contains_ci k message)))
   \<and> (\<forall>ctx. extractContext message category = Some ctx \<and> errorMessage ctx \<noteq> None
          \<longrightarrow> errorMessage ctx = Some message)"
  using extractContext_python_block extractContext_failed_undefined extractContext_hello
    errorMessage_populated [of message category] errorMessage_value [of message category]
  by blast

theorem extractContext_examples_and_errorMessage_witness:
  "(\<exists>k\<in>set error_keywords. contains_ci k ''a NULL pointer'')
   \<and> extractContext ''a NULL pointer'' ''bug-fix'' =
       Some \<lparr>codeSnippet = None, errorMessage = Some ''a NULL pointer'',
             language = None, framework = None\<rparr>
   \<and> extractContext ''a NULL pointer'' ''general'' = None"
proof -
  have e: "extractContext ''a NULL pointer'' ''bug-fix'' =
       Some \<lparr>codeSnippet = None, errorMessage = Some ''a NULL pointer'',
             language = None, framework = None\<rparr>"
    by code_simp
  then have "\<exists>ctx. extractContext ''a NULL pointer'' ''bug-fix'' = Some ctx \<and> errorMessage ctx \<noteq> None"
    by simp
  then have "\<exists>k\<in>set error_keywords. contains_ci k ''a NULL pointer''"
    using extractContext_examples_and_errorMessage [of "''a NULL pointer''" "''bug-fix''"]
    by blast
  moreover have "extractContext ''a NULL pointer'' ''general'' = None"
    by code_simp
  ultimately show ?thesis using e by blast
qed

lemma match_at_not_fence: "CHR 0x60 \<noteq> c \<Longrightarrow> match_at (c # cs) = None"
  by (auto simp: match_at_def fence_def)

lemma codeMatch_skip_prefix: "CHR 0x60 \<notin> set pre \<Longrightarrow> codeMatch (pre @ s) = codeMatch s"
  by (induction pre) (simp_all add: match_at_not_fence)

lemma extractContext_untagged:
  assumes "codeMatch message = Some (None, snippet)"
  shows "\<exists>ctx. extractContext message category = Some ctx
           \<and> language ctx = Some ''javascript'' \<and> codeSnippet ctx = Some snippet"
  using assms by (simp add: extractContext_def Let_def keys_def empty_context_def)

text \<open>
  Claim C10. When the fenced block that context extraction finds has no language tag
  on its opening fence (group 1 of the match is undefined), the context is present and
  its language is the default \<open>javascript\<close>, with the block's text as snippet. This is
  the case for every message made of a text without backticks, three backticks, a line
  feed, any body, three backticks, and anything after: the block is found wherever it
  starts.
\<close>

theorem extractContext_default_language:
  "(codeMatch message = Some (None, snippet) \<longrightarrow>
      (\<exists>ctx. extractContext message category = Some ctx
         \<and> language ctx = Some ''javascript'' \<and> codeSnippet ctx = Some snippet))
   \<and> (CHR 0x60 \<notin> set pre \<longrightarrow>
      (\<exists>ctx. extractContext (pre @ ''```'' @ [newline] @ body @ ''```'' @ rest) category = Some ctx
         \<and> language ctx = Some ''javascript''))"
proof -
  have general: "codeMatch message = Some (None, snippet) \<longrightarrow>
      (\<exists>ctx. extractContext message category = Some ctx
         \<and> language ctx = Some ''javascript'' \<and> codeSnippet ctx = Some snippet)"
    using extractContext_untagged by blast
  have shape: "\<exists>ctx. extractContext (pre @ ''```'' @ [newline] @ body @ ''```'' @ rest) category = Some ctx
         \<and> language ctx = Some ''javascript''" if free: "CHR 0x60 \<notin> set pre"
  proof -
    obtain snip where "codeMatch (fence @ newline # body @ fence @ rest) = Some (None, snip)"
      using codeMatch_untagged by blast
    then have "codeMatch (pre @ fence @ newline # body @ fence @ rest) = Some (None, snip)"
      using codeMatch_skip_prefix [OF free] by simp
    then have "codeMatch (pre @ ''```'' @ [newline] @ body @ ''```'' @ rest) = Some (None, snip)"
      by (simp add: fence_def)
    then show ?thesis
      using extractContext_untagged by blast
  qed
  from general shape show ?thesis by blast
qed

theorem extractContext_default_language_witness:
  "\<exists>ctx. extractContext ''see:\<newline>```\<newline>let y = 2;\<newline>```'' ''learning'' = Some ctx
         \<and> language ctx = Some ''javascript''"
proof -
  have "CHR 0x60 \<notin> set ''see:\<newline>''"
    by simp
  then have "\<exists>ctx. extractContext (''see:\<newline>'' @ ''```'' @ [newline] @ ''let y = 2;\<newline>'' @ ''```'' @ [])
                 ''learning'' = Some ctx \<and> language ctx = Some ''javascript''"
    using extractContext_default_language
      [where pre = "''see:\<newline>''" and body = "''let y = 2;\<newline>''" and rest = "[]"
         and category = "''learning''"]
    by blast
  then show ?thesis
    by (simp add: newline_def)
qed

section \<open>Error classification of the API client\<close>

lemma network_message_not_http: "err_message network_error \<noteq> http_message status statusText"
  by (simp add: network_error_def http_message_def)

lemma request_not_ok_value:
  "request (Fetch_resolved (Response_not_ok status statusText (Json_value m c))) =
     Inl \<lparr>err_message = or_else m (http_message status statusText),
          err_code = or_else c ''HTTP_ERROR''\<rparr>"
  by (simp add: request_def)

lemma request_not_ok_reject:
  "request (Fetch_resolved (Response_not_ok status statusText Json_reject)) =
     Inl \<lparr>err_message = http_message status statusText, err_code = ''HTTP_ERROR''\<rparr>"
  by (simp add: request_def or_else_def)

lemma request_other_failure:
  fixes f :: "'a body fetch_result"
  assumes "request f = Inl e" and "\<not> null_body f" and "\<not> not_ok f"
  shows "e = network_error"
proof (cases f)
  case Fetch_rejected
  with assms show ?thesis by (simp add: request_def)
next
  case (Fetch_resolved r)
  show ?thesis
  proof (cases r)
    case (Response_ok v)
    with Fetch_resolved assms show ?thesis
      by (cases v) (simp_all add: request_def)
  next
    case (Response_not_ok status statusText j)
    with Fetch_resolved assms show ?thesis by simp
  qed
qed

lemma classifies_failures_like_request:
  fixes op :: "'a body fetch_result \<Rightarrow> thrown + 'b"
  assumes op: "\<And>f t. \<not> null_body f \<Longrightarrow> (op f = Inl t) = (\<exists>e. request f = Inl e \<and> t = ApiError e)"
  shows "classifies_failures op"
proof -
  have fails: "op f = Inl (ApiError e)" if r: "request f = Inl e" and n: "\<not> null_body f" for f e
    using op [OF n] r by simp
  have 1: "op (Fetch_resolved (Response_not_ok status statusText (Json_value m c))) =
          Inl (ApiError
            \<lparr>err_message = or_else m (''HTTP '' @ show_nat status @ '': '' @ statusText),
             err_code = or_else c ''HTTP_ERROR''\<rparr>)" for status statusText m c
    using fails [OF request_not_ok_value [of status statusText m c]]
    by (simp add: http_message_def)
  have 2: "op (Fetch_resolved (Response_not_ok status statusText (Json_value (Some m) (Some c)))) =
          Inl (ApiError \<lparr>err_message = m, err_code = c\<rparr>)" if m: "m \<noteq> []" and c: "c \<noteq> []"
    for status statusText m c
    using 1 [of status statusText "Some m" "Some c"] m c by (simp add: or_else_def)
  have 3: "op (Fetch_resolved (Response_not_ok status statusText Json_reject)) =
          Inl (ApiError \<lparr>err_message = ''HTTP '' @ show_nat status @ '': '' @ statusText,
                          err_code = ''HTTP_ERROR''\<rparr>)" for status statusText
    using fails [OF request_not_ok_reject [of status statusText]]
    by (simp add: http_message_def)
  have 4: "op Fetch_rejected = Inl (ApiError network_error)"
    using fails [of Fetch_rejected network_error] by (simp add: request_def)
  have 5: "op (Fetch_resolved (Response_ok None)) = Inl (ApiError network_error)"
    using fails [of "Fetch_resolved (Response_ok None)" network_error] by (simp add: request_def)
  have 6: "t = ApiError network_error"
    if r: "op f = Inl t" and n: "\<not> null_body f" and k: "\<not> not_ok f" for f t
  proof -
    obtain e where "request f = Inl e" "t = ApiError e"
      using op [OF n] r by blast
    then show ?thesis using request_other_failure n k by blast
  qed
  have 7: "\<exists>e. t = ApiError e" if r: "op f = Inl t" and n: "\<not> null_body f" for f t
    using op [OF n] r by blast
  show ?thesis
    unfolding classifies_failures_def using 1 2 3 4 5 6 7 by blast
qed

lemma classifies_failures_structured:
  "classifies_failures op \<Longrightarrow> m \<noteq> [] \<Longrightarrow> c \<noteq> [] \<Longrightarrow>
   op (Fetch_resolved (Response_not_ok status statusText (Json_value (Some m) (Some c)))) =
     Inl (ApiError \<lparr>err_message = m, err_code = c\<rparr>)"
  by (simp add: classifies_failures_def or_else_def)

lemma classifies_failures_undecodable:
  "classifies_failures op \<Longrightarrow>
   op (Fetch_resolved (Response_not_ok status statusText Json_reject)) =
     Inl (ApiError \<lparr>err_message = ''HTTP '' @ show_nat status @ '': '' @ statusText,
                     err_code = ''HTTP_ERROR''\<rparr>)"
  by (simp add: classifies_failures_def)

lemma classifies_failures_network:
  "classifies_failures op \<Longrightarrow>
   op Fetch_rejected = Inl (ApiError network_error)
   \<and> op (Fetch_resolved (Response_ok None)) = Inl (ApiError network_error)"
  by (simp add: classifies_failures_def)

lemma thrown_of_fails: "(thrown_of r = Inl t) = (\<exists>e. r = Inl e \<and> t = ApiError e)"
  by (cases r) (auto simp: thrown_of_def)

lemma sendMessage_fails:
  "\<not> null_body f \<Longrightarrow>
   (apiService_sendMessage f = Inl t) = (\<exists>e. request f = Inl e \<and> t = ApiError e)"
proof (cases "request f")
  case (Inl e)
  then show ?thesis by (auto simp: apiService_sendMessage_def)
next
  case (Inr v)
  assume n: "\<not> null_body f"
  have "v \<noteq> Body_null"
  proof
    assume "v = Body_null"
    with Inr have "request f = Inr Body_null" by simp
    then have "f = Fetch_resolved (Response_ok (Some Body_null))"
      by (auto simp: request_def split: fetch_result.splits response.splits error_json.splits
            option.splits)
    with n show False by simp
  qed
  with Inr show ?thesis
    by (cases v) (simp_all add: apiService_sendMessage_def)
qed

lemma getConversation_fails:
  "\<not> null_body f \<Longrightarrow>
   (getConversation clock f = Inl t) = (\<exists>e. request f = Inl e \<and> t = ApiError e)"
proof (cases "request f")
  case (Inl e)
  then show ?thesis by (auto simp: getConversation_def)
next
  case (Inr v)
  assume n: "\<not> null_body f"
  have "v \<noteq> Body_null"
  proof
    assume "v = Body_null"
    with Inr have "request f = Inr Body_null" by simp
    then have "f = Fetch_resolved (Response_ok (Some Body_null))"
      by (auto simp: request_def split: fetch_result.splits response.splits error_json.splits
            option.splits)
    with n show False by simp
  qed
  with Inr show ?thesis
    by (cases v) (simp_all add: getConversation_def)
qed

text \<open>
  Two behaviours on a \<open>null\<close> body, which the amended claim C4 leaves aside. On a
  successful response whose body is \<open>null\<close>, \<open>sendMessage\<close> and \<open>getConversation\<close> fail
  with a TypeError raised after \<open>request\<close> has returned: the failure is not a classified
  error. On a non-success response whose body is \<open>null\<close>, reading \<open>errorData.message\<close>
  raises inside \<open>request\<close>, and the failure is the network error, not an HTTP error.
\<close>

lemma sendMessage_null_body_unclassified:
  "apiService_sendMessage (Fetch_resolved (Response_ok (Some Body_null))) = Inl OtherError"
  by (simp add: apiService_sendMessage_def request_def)

lemma getConversation_null_body_unclassified:
  "getConversation clock (Fetch_resolved (Response_ok (Some Body_null))) = Inl OtherError"
  by (simp add: getConversation_def request_def)

lemma request_null_error_body_is_network_error:
  "request (Fetch_resolved (Response_not_ok status statusText Json_null)) = Inl network_error"
  by (simp add: request_def)

text \<open>
  Claim C4, as stated, does not hold. A failure need not carry one of the two fixed
  codes: a 400 response whose body is a structured error with code \<open>VALIDATION_ERROR\<close>
  fails with that code. And a non-success response whose body decodes but supplies
  no code (here only a message) fails with the backend's message and the code
  \<open>HTTP_ERROR\<close>: neither a backend-supplied code, nor the HTTP message, nor the network
  error.
\<close>

theorem api_failure_codes_counterexample:
  "apiService_createConversation (Fetch_resolved (Response_not_ok 400 ''Bad Request''
       (Json_value (Some ''bad input'') (Some ''VALIDATION_ERROR'')))) =
     Inl (ApiError \<lparr>err_message = ''bad input'', err_code = ''VALIDATION_ERROR''\<rparr>)
   \<and> ''VALIDATION_ERROR'' \<noteq> ''HTTP_ERROR'' \<and> ''VALIDATION_ERROR'' \<noteq> ''NETWORK_ERROR''
   \<and> apiService_createConversation (Fetch_resolved (Response_not_ok 429 ''Too Many Requests''
       (Json_value (Some ''quota exceeded'') None))) =
     Inl (ApiError \<lparr>err_message = ''quota exceeded'', err_code = ''HTTP_ERROR''\<rparr>)"
  by (simp add: apiService_createConversation_def thrown_of_def request_def or_else_def)

text \<open>
  Claim C4, amended. For each of the seven operations of the API client, every
  failure on a response whose body is not the JSON \<open>null\<close> (a successful body that
  parses being of the operation's declared type) is a classified error. On a
  non-success status whose body decodes to a structured error (non-empty message and
  code) it carries the backend's message and code; more generally, on a non-success
  status whose body decodes, it carries the backend's message and code, each replaced
  when absent or empty by its default, the message \<open>HTTP status: statusText\<close> and the
  code \<open>HTTP_ERROR\<close>; on a non-success status whose body does not decode it carries both
  defaults. Every other failure (a failed \<open>fetch\<close> and a successful response whose body
  does not parse are such failures) is the network error, whose code is
  \<open>NETWORK_ERROR\<close> and whose message is fixed and differs from every HTTP message.
\<close>

theorem api_failures_classified:
  "classifies_failures (apiService_sendMessage :: 'm chat_response body fetch_result \<Rightarrow> _)
   \<and> classifies_failures (getConversation clock :: 'm wire_message list body fetch_result \<Rightarrow> _)
   \<and> classifies_failures apiService_getConversations
   \<and> classifies_failures apiService_createConversation
   \<and> classifies_failures apiService_deleteConversation
   \<and> classifies_failures apiService_searchConversations
   \<and> classifies_failures apiService_healthCheck
   \<and> err_code network_error = ''NETWORK_ERROR''
   \<and> (\<forall>status statusText.
         err_message network_error \<noteq> ''HTTP '' @ show_nat status @ '': '' @ statusText)"
proof -
  have 1: "classifies_failures (apiService_sendMessage :: 'm chat_response body fetch_result \<Rightarrow> _)"
    by (rule classifies_failures_like_request) (rule sendMessage_fails)
  have 2: "classifies_failures (getConversation clock :: 'm wire_message list body fetch_result \<Rightarrow> _)"
    by (rule classifies_failures_like_request) (rule getConversation_fails)
  have 3: "classifies_failures apiService_getConversations"
    by (rule classifies_failures_like_request)
      (simp add: apiService_getConversations_def thrown_of_fails)
  have 4: "classifies_failures apiService_createConversation"
    by (rule classifies_failures_like_request)
      (simp add: apiService_createConversation_def thrown_of_fails)
  have 5: "classifies_failures apiService_deleteConversation"
    by (rule classifies_failures_like_request)
      (simp add: apiService_deleteConversation_def thrown_of_fails)
  have 6: "classifies_failures apiService_searchConversations"
    by (rule classifies_failures_like_request)
      (simp add: apiService_searchConversations_def thrown_of_fails)
  have 7: "classifies_failures apiService_healthCheck"
    by (rule classifies_failures_like_request)
      (simp add: apiService_healthCheck_def thrown_of_fails)
  have 8: "err_code network_error = ''NETWORK_ERROR''"
    by (simp add: network_error_def)
  have 9: "\<forall>status statusText.
         err_message network_error \<noteq> ''HTTP '' @ show_nat status @ '': '' @ statusText"
    using network_message_not_http by (simp add: http_message_def)
  from 1 2 3 4 5 6 7 8 9 show ?thesis by blast
qed

theorem api_failures_classified_witness:
  "apiService_sendMessage (Fetch_resolved (Response_not_ok 422 ''Unprocessable''
       (Json_value (Some ''title missing'') (Some ''VALIDATION_ERROR'')))
       :: unit chat_response body fetch_result) =
     Inl (ApiError \<lparr>err_message = ''title missing'', err_code = ''VALIDATION_ERROR''\<rparr>)
   \<and> getConversation (\<lambda>i. i) (Fetch_resolved (Response_not_ok 502 ''Bad Gateway'' Json_reject)
       :: unit wire_message list body fetch_result) =
     Inl (ApiError \<lparr>err_message = ''HTTP 502: Bad Gateway'', err_code = ''HTTP_ERROR''\<rparr>)
   \<and> apiService_getConversations Fetch_rejected =
     Inl (ApiError
       \<lparr>err_message = ''Failed to connect to the AI service. Please check your connection.'',
        err_code = ''NETWORK_ERROR''\<rparr>)
   \<and> apiService_deleteConversation (Fetch_resolved (Response_ok None)) =
     Inl (ApiError
       \<lparr>err_message = ''Failed to connect to the AI service. Please check your connection.'',
        err_code = ''NETWORK_ERROR''\<rparr>)"
proof -
  have sm: "classifies_failures (apiService_sendMessage :: unit chat_response body fetch_result \<Rightarrow> _)"
    and gc: "classifies_failures
               (getConversation (\<lambda>i. i) :: unit wire_message list body fetch_result \<Rightarrow> _)"
    and gl: "classifies_failures apiService_getConversations"
    and dc: "classifies_failures apiService_deleteConversation"
    using api_failures_classified [where ?'m = unit and clock = "\<lambda>i. i"] by simp_all
  have s: "show_nat 502 = ''502''" by code_simp
  have a: "apiService_sendMessage (Fetch_resolved (Response_not_ok 422 ''Unprocessable''
       (Json_value (Some ''title missing'') (Some ''VALIDATION_ERROR'')))
       :: unit chat_response body fetch_result) =
     Inl (ApiError \<lparr>err_message = ''title missing'', err_code = ''VALIDATION_ERROR''\<rparr>)"
    by (rule classifies_failures_structured [OF sm]) simp_all
  have b: "getConversation (\<lambda>i. i) (Fetch_resolved (Response_not_ok 502 ''Bad Gateway'' Json_reject)
       :: unit wire_message list body fetch_result) =
     Inl (ApiError \<lparr>err_message = ''HTTP 502: Bad Gateway'', err_code = ''HTTP_ERROR''\<rparr>)"
    using classifies_failures_undecodable [OF gc, of 502 "''Bad Gateway''"] by (simp add: s)
  have c: "apiService_getConversations Fetch_rejected = Inl (ApiError network_error)"
    using classifies_failures_network [OF gl] by simp
  have d: "apiService_deleteConversation (Fetch_resolved (Response_ok None)) =
     Inl (ApiError network_error)"
    using classifies_failures_network [OF dc] by simp
  from a b c d show ?thesis
    by (simp add: network_error_def)
qed

section \<open>Chat session\<close>

text \<open>
  Claim C2. For every classified error that a send or a load ends with, the
  connection flag afterwards is false if and only if the error's code is
  \<open>NETWORK_ERROR\<close>; with any other code it is true.
\<close>

theorem isConnected_iff_not_network_error:
  "(\<not> isConnected (fst (sendMessage_resume cat (Inl (ApiError e)) t_id t_stamp st))
      \<longleftrightarrow> err_code e = ''NETWORK_ERROR'')
   \<and> (\<not> isConnected (fst (loadConversation_resume (Inl (ApiError e)) st))
      \<longleftrightarrow> err_code e = ''NETWORK_ERROR'')
   \<and> (err_code e \<noteq> ''NETWORK_ERROR'' \<longrightarrow>
        isConnected (fst (sendMessage_resume cat (Inl (ApiError e)) t_id t_stamp st))
        \<and> isConnected (fst (loadConversation_resume (Inl (ApiError e)) st)))"
  by (simp add: sendMessage_resume_def loadConversation_resume_def sendMessage_finally_def Let_def)

theorem isConnected_iff_not_network_error_witness:
  "isConnected (fst (sendMessage_resume General
      (Inl (ApiError \<lparr>err_message = ''HTTP 500: Internal Server Error'', err_code = ''HTTP_ERROR''\<rparr>))
      7 7 (initial_chat :: unit chat_state)))
   \<and> isConnected (fst (loadConversation_resume
      (Inl (ApiError \<lparr>err_message = ''HTTP 500: Internal Server Error'', err_code = ''HTTP_ERROR''\<rparr>))
      (initial_chat :: unit chat_state)))
   \<and> \<not> isConnected (fst (sendMessage_resume General
      (Inl (ApiError network_error)) 7 7 (initial_chat :: unit chat_state)))
   \<and> \<not> isConnected (fst (loadConversation_resume
      (Inl (ApiError network_error)) (initial_chat :: unit chat_state)))"
proof -
  have c: "err_code network_error = ''NETWORK_ERROR''"
    by (simp add: network_error_def)
  have h: "err_code \<lparr>err_message = ''HTTP 500: Internal Server Error'', err_code = ''HTTP_ERROR''\<rparr>
             \<noteq> ''NETWORK_ERROR''"
    by simp
  show ?thesis
    using c h
      isConnected_iff_not_network_error [of General
        "\<lparr>err_message = ''HTTP 500: Internal Server Error'', err_code = ''HTTP_ERROR''\<rparr>"
        7 7 "initial_chat :: unit chat_state"]
      isConnected_iff_not_network_error [of General network_error 7 7
        "initial_chat :: unit chat_state"]
    by blast
qed




lemma sendMessage_resume_appends:
  "messages (fst (sendMessage_resume cat (Inr response) t_id t_stamp st)) =
     messages st @
       [\<lparr>msg_id = res_id response, msg_content = res_content response, msg_sender = Ai,
         msg_timestamp = Date_of (res_timestamp response), msg_type = None,
         msg_category = Some cat, msg_metadata = Some (res_metadata response)\<rparr>]"
  by (simp add: sendMessage_resume_def sendMessage_finally_def Let_def)

text \<open>
  Claim C1, evaluated on the code. A first send is issued; while it is outstanding a
  load of the conversation completes (which clears the loading flag); a second send is
  then issued through the callback of the current render, which aborts the first
  controller and installs a new one; then the first request's response arrives. The
  response of the superseded request is appended to the message sequence, after the
  second user message: the controller is never consulted when a result is applied
  (\<open>sendMessage_resume_appends\<close> holds in every state), and the request was issued
  without its signal.
\<close>

theorem superseded_response_is_applied:
  "(let s1 = fst (sendMessage_begin (render ''c1'' (initial_chat :: unit chat_state)) ''first'' General None 1 1
                   (initial_chat :: unit chat_state));
        s2 = fst (loadConversation_resume (Inr []) (loadConversation_begin s1));
        (s3, issued) = sendMessage_begin (render ''c1'' s2) ''second'' General None 2 2 s2;
        s4 = fst (sendMessage_resume General
                   (Inr \<lparr>res_id = ''a1'', res_content = ''answer to first'',
                         res_timestamp = ''2024-01-01T00:00:00Z'', res_metadata = ()\<rparr>)
                   3 3 s3)
    in issued \<noteq> None
       \<and> controllers s3 = [True, False] \<and> abortControllerRef s3 = Some 1
       \<and> map msg_content (messages s4) = [''second'', ''answer to first'']
       \<and> abortControllerRef s4 = None \<and> \<not> isLoading s4)"
  by code_simp

section \<open>Conversation registry\<close>

text \<open>
  Claim C6. When the API client creates the conversation, the new summary is put in
  front of the cached list, the entries cached before following in their order, and
  it is returned; when the API client fails with a classified error, the error string
  becomes that error's message, the cache is as before, and the error is thrown again
  to the caller.
\<close>

theorem createConversation_prepends_or_rethrows:
  "(api_createConversation api title cat = Inr newConversation \<longrightarrow>
      createConversation api title cat st =
        (st\<lparr>conversations := newConversation # conversations st\<rparr>, Inr newConversation))
   \<and> (api_createConversation api title cat = Inl (ApiError err) \<longrightarrow>
      createConversation api title cat st =
        (st\<lparr>conversationsError := Some (err_message err)\<rparr>, Inl (ApiError err)))"
  by (simp add: createConversation_def)

theorem createConversation_prepends_or_rethrows_witness:
  "(let old = \<lparr>conv_id = ''c1'', conv_title = ''Old'', conv_lastMessage = ''hi'',
                 conv_category = General, conv_messageCount = 2,
                 conv_createdAt = ''2024-01-01'', conv_updatedAt = ''2024-01-02''\<rparr>;
        new = \<lparr>conv_id = ''c2'', conv_title = ''New Conversation'', conv_lastMessage = [],
                 conv_category = Bug_fix, conv_messageCount = 0,
                 conv_createdAt = ''2024-02-01'', conv_updatedAt = ''2024-02-01''\<rparr>;
        down = \<lparr>err_message = ''HTTP 503: Service Unavailable'', err_code = ''HTTP_ERROR''\<rparr>;
        st = \<lparr>conversations = [old], conversationsLoading = False, conversationsError = None\<rparr>;
        up = \<lparr>api_getConversations = Inr [new, old],
               api_createConversation = (\<lambda>title cat. Inr new),
               api_deleteConversation = (\<lambda>i. Inr ()),
               api_searchConversations = (\<lambda>q. Inr [])\<rparr>;
        failing = up\<lparr>api_createConversation := (\<lambda>title cat. Inl (ApiError down))\<rparr>
    in createConversation up ''New Conversation'' Bug_fix st =
         (st\<lparr>conversations := [new, old]\<rparr>, Inr new)
       \<and> createConversation failing ''New Conversation'' Bug_fix st =
         (st\<lparr>conversationsError := Some ''HTTP 503: Service Unavailable''\<rparr>, Inl (ApiError down)))"
proof -
  define old where "old = \<lparr>conv_id = ''c1'', conv_title = ''Old'', conv_lastMessage = ''hi'',
                 conv_category = General, conv_messageCount = 2,
                 conv_createdAt = ''2024-01-01'', conv_updatedAt = ''2024-01-02''\<rparr>"
  define new where "new = \<lparr>conv_id = ''c2'', conv_title = ''New Conversation'', conv_lastMessage = [],
                 conv_category = Bug_fix, conv_messageCount = 0,
                 conv_createdAt = ''2024-02-01'', conv_updatedAt = ''2024-02-01''\<rparr>"
  define down where "down = \<lparr>err_message = ''HTTP 503: Service Unavailable'', err_code = ''HTTP_ERROR''\<rparr>"
  define st where "st = \<lparr>conversations = [old], conversationsLoading = False, conversationsError = None\<rparr>"
  define up where "up = \<lparr>api_getConversations = Inr [new, old],
               api_createConversation = (\<lambda>title cat. Inr new),
               api_deleteConversation = (\<lambda>i. Inr ()),
               api_searchConversations = (\<lambda>q. Inr [])\<rparr>"
  define failing where "failing = up\<lparr>api_createConversation := (\<lambda>title cat. Inl (ApiError down))\<rparr>"
  have a: "api_createConversation up ''New Conversation'' Bug_fix = Inr new"
    by (simp add: up_def)
  have b: "api_createConversation failing ''New Conversation'' Bug_fix = Inl (ApiError down)"
    by (simp add: failing_def)
  have "createConversation up ''New Conversation'' Bug_fix st =
         (st\<lparr>conversations := new # conversations st\<rparr>, Inr new)"
    using a createConversation_prepends_or_rethrows
        [where api = up and title = "''New Conversation''" and cat = Bug_fix
           and newConversation = new and st = st]
    by blast
  moreover have "createConversation failing ''New Conversation'' Bug_fix st =
         (st\<lparr>conversationsError := Some (err_message down)\<rparr>, Inl (ApiError down))"
    using b createConversation_prepends_or_rethrows
        [where api = failing and title = "''New Conversation''" and cat = Bug_fix
           and err = down and st = st]
    by blast
  ultimately have "createConversation up ''New Conversation'' Bug_fix st =
         (st\<lparr>conversations := [new, old]\<rparr>, Inr new)
       \<and> createConversation failing ''New Conversation'' Bug_fix st =
         (st\<lparr>conversationsError := Some ''HTTP 503: Service Unavailable''\<rparr>, Inl (ApiError down))"
    by (simp add: st_def down_def)
  then show ?thesis
    unfolding old_def new_def down_def st_def up_def failing_def by (simp add: Let_def)
qed

text \<open>
  Claim C7. With a query that is empty or only white space, search is the load
  operation, so the cache becomes the full list that the API client returns; with any
  other query, the cache becomes the list of search results.
\<close>

theorem searchConversations_blank_is_load:
  "(trim query = [] \<longrightarrow> searchConversations api query st = loadConversations api st)
   \<and> (trim query = [] \<and> api_getConversations api = Inr data \<longrightarrow>
        conversations (searchConversations api query st) = data)
   \<and> (trim query \<noteq> [] \<and> api_searchConversations api query = Inr results \<longrightarrow>
        conversations (searchConversations api query st) = results)"
  by (simp add: searchConversations_def loadConversations_def Let_def)

theorem searchConversations_blank_is_load_witness:
  "(let old = \<lparr>conv_id = ''c1'', conv_title = ''Old'', conv_lastMessage = ''hi'',
                 conv_category = General, conv_messageCount = 2,
                 conv_createdAt = ''2024-01-01'', conv_updatedAt = ''2024-01-02''\<rparr>;
        other = old\<lparr>conv_id := ''c2'', conv_title := ''Other''\<rparr>;
        st = \<lparr>conversations = [other], conversationsLoading = False,
               conversationsError = Some ''stale''\<rparr>;
        api = \<lparr>api_getConversations = Inr [old, other],
               api_createConversation = (\<lambda>title cat. Inr old),
               api_deleteConversation = (\<lambda>i. Inr ()),
               api_searchConversations = (\<lambda>q. Inr [old])\<rparr>
    in searchConversations api [CHR '' '', CHR '' ''] st =
         \<lparr>conversations = [old, other], conversationsLoading = False, conversationsError = None\<rparr>
       \<and> conversations (searchConversations api ''Old'' st) = [old])"
proof -
  define old where "old = \<lparr>conv_id = ''c1'', conv_title = ''Old'', conv_lastMessage = ''hi'',
                 conv_category = General, conv_messageCount = 2,
                 conv_createdAt = ''2024-01-01'', conv_updatedAt = ''2024-01-02''\<rparr>"
  define other where "other = old\<lparr>conv_id := ''c2'', conv_title := ''Other''\<rparr>"
  define st where "st = \<lparr>conversations = [other], conversationsLoading = False,
               conversationsError = Some ''stale''\<rparr>"
  define api where "api = \<lparr>api_getConversations = Inr [old, other],
               api_createConversation = (\<lambda>title cat. Inr old),
               api_deleteConversation = (\<lambda>i. Inr ()),
               api_searchConversations = (\<lambda>q. Inr [old])\<rparr>"
  have blank: "trim [CHR '' '', CHR '' ''] = []"
    by (simp add: trim_def is_space_def)
  have full: "trim ''Old'' \<noteq> [] \<and> api_searchConversations api ''Old'' = Inr [old]"
    by (simp add: trim_def is_space_def api_def)
  have "searchConversations api [CHR '' '', CHR '' ''] st = loadConversations api st"
    using blank searchConversations_blank_is_load
        [where query = "[CHR '' '', CHR '' '']" and api = api and st = st]
    by blast
  moreover have "loadConversations api st =
      \<lparr>conversations = [old, other], conversationsLoading = False, conversationsError = None\<rparr>"
    by (simp add: loadConversations_def api_def st_def)
  moreover have "conversations (searchConversations api ''Old'' st) = [old]"
    using full searchConversations_blank_is_load
        [where query = "''Old''" and api = api and results = "[old]" and st = st]
    by blast
  ultimately have "searchConversations api [CHR '' '', CHR '' ''] st =
         \<lparr>conversations = [old, other], conversationsLoading = False, conversationsError = None\<rparr>
       \<and> conversations (searchConversations api ''Old'' st) = [old]"
    by simp
  then show ?thesis
    unfolding old_def other_def st_def api_def by (simp add: Let_def)
qed

text \<open>
  Claim C8. When the API client deletes the conversation, the cache afterwards is the
  cache before without the entries whose identity is the given one, the others in
  their order; when the API client fails with a classified error, the cache is as
  before and the error string is that error's message.
\<close>

theorem deleteConversation_removes_or_keeps:
  "(api_deleteConversation api i = Inr () \<longrightarrow>
      conversations (deleteConversation api i st) =
        filter (\<lambda>conv. conv_id conv \<noteq> i) (conversations st)
      \<and> (\<forall>conv \<in> set (conversations st).
            conv \<in> set (conversations (deleteConversation api i st)) \<longleftrightarrow> conv_id conv \<noteq> i))
   \<and> (api_deleteConversation api i = Inl (ApiError err) \<longrightarrow>
      conversations (deleteConversation api i st) = conversations st
      \<and> conversationsError (deleteConversation api i st) = Some (err_message err))"
  by (auto simp: deleteConversation_def)

theorem deleteConversation_removes_or_keeps_witness:
  "(let a = \<lparr>conv_id = ''c1'', conv_title = ''A'', conv_lastMessage = ''hi'',
               conv_category = General, conv_messageCount = 2,
               conv_createdAt = ''2024-01-01'', conv_updatedAt = ''2024-01-02''\<rparr>;
        b = a\<lparr>conv_id := ''c2'', conv_title := ''B''\<rparr>;
        c = a\<lparr>conv_id := ''c3'', conv_title := ''C''\<rparr>;
        gone = \<lparr>err_message = ''Conversation not found'', err_code = ''NOT_FOUND''\<rparr>;
        st = \<lparr>conversations = [a, b, c], conversationsLoading = False, conversationsError = None\<rparr>;
        api = \<lparr>api_getConversations = Inr [a, c],
               api_createConversation = (\<lambda>title cat. Inr a),
               api_deleteConversation = (\<lambda>i. if i = ''c2'' then Inr () else Inl (ApiError gone)),
               api_searchConversations = (\<lambda>q. Inr [])\<rparr>
    in conversations (deleteConversation api ''c2'' st) = [a, c]
       \<and> conversations (deleteConversation api ''c9'' st) = [a, b, c]
       \<and> conversationsError (deleteConversation api ''c9'' st) = Some ''Conversation not found'')"
proof -
  define a where "a = \<lparr>conv_id = ''c1'', conv_title = ''A'', conv_lastMessage = ''hi'',
               conv_category = General, conv_messageCount = 2,
               conv_createdAt = ''2024-01-01'', conv_updatedAt = ''2024-01-02''\<rparr>"
  define b where "b = a\<lparr>conv_id := ''c2'', conv_title := ''B''\<rparr>"
  define c where "c = a\<lparr>conv_id := ''c3'', conv_title := ''C''\<rparr>"
  define gone where "gone = \<lparr>err_message = ''Conversation not found'', err_code = ''NOT_FOUND''\<rparr>"
  define st where "st = \<lparr>conversations = [a, b, c], conversationsLoading = False, conversationsError = None\<rparr>"
  define api where "api = \<lparr>api_getConversations = Inr [a, c],
               api_createConversation = (\<lambda>title cat. Inr a),
               api_deleteConversation = (\<lambda>i. if i = ''c2'' then Inr () else Inl (ApiError gone)),
               api_searchConversations = (\<lambda>q. Inr [])\<rparr>"
  have ok: "api_deleteConversation api ''c2'' = Inr ()"
    by (simp add: api_def)
  have ko: "api_deleteConversation api ''c9'' = Inl (ApiError gone)"
    by (simp add: api_def)
  have "conversations (deleteConversation api ''c2'' st) =
          filter (\<lambda>conv. conv_id conv \<noteq> ''c2'') (conversations st)"
    using ok deleteConversation_removes_or_keeps [where api = api and i = "''c2''" and st = st] by blast
  then have 1: "conversations (deleteConversation api ''c2'' st) = [a, c]"
    by (simp add: st_def a_def b_def c_def)
  have "conversations (deleteConversation api ''c9'' st) = conversations st
      \<and> conversationsError (deleteConversation api ''c9'' st) = Some (err_message gone)"
    using ko deleteConversation_removes_or_keeps
        [where api = api and i = "''c9''" and st = st and err = gone] by blast
  then have 2: "conversations (deleteConversation api ''c9'' st) = [a, b, c]
      \<and> conversationsError (deleteConversation api ''c9'' st) = Some ''Conversation not found''"
    by (simp add: st_def gone_def)
  from 1 2 show ?thesis
    unfolding a_def b_def c_def gone_def st_def api_def by (simp add: Let_def)
qed

section \<open>Timestamps of a fetched conversation\<close>

lemma length_map_messages: "length (map_messages clock k raw) = length raw"
  by (induction raw arbitrary: k) simp_all

lemma nth_map_messages:
  "i < length raw \<Longrightarrow> map_messages clock k raw ! i = to_chat_message (clock (k + i)) (raw ! i)"
proof (induction raw arbitrary: k i)
  case Nil
  then show ?case by simp
next
  case (Cons m ms)
  then show ?case by (cases i) simp_all
qed

text \<open>
  Claim C9. When the request succeeds with the list \<open>raw\<close> of wire messages, fetching a
  conversation returns one message for each wire message, in order. A wire timestamp
  that is a (non-empty) string \<open>s\<close> becomes the date that \<open>s\<close> denotes; an absent
  wire timestamp becomes the reading of the clock at that moment; every other field is
  the wire message's.
\<close>

theorem getConversation_timestamps:
  "request f = Inr (Body raw) \<longrightarrow>
     (\<exists>ms. getConversation clock f = Inr ms \<and> length ms = length raw
        \<and> (\<forall>i < length raw.
              (wire_timestamp (raw ! i) = None \<longrightarrow> msg_timestamp (ms ! i) = Clock (clock i))
            \<and> (\<forall>s. wire_timestamp (raw ! i) = Some s \<and> s \<noteq> [] \<longrightarrow>
                    msg_timestamp (ms ! i) = Date_of s)
            \<and> msg_id (ms ! i) = wire_id (raw ! i)
            \<and> msg_content (ms ! i) = wire_content (raw ! i)
            \<and> msg_sender (ms ! i) = wire_sender (raw ! i)
            \<and> msg_type (ms ! i) = wire_type (raw ! i)
            \<and> msg_category (ms ! i) = wire_category (raw ! i)
            \<and> msg_metadata (ms ! i) = wire_metadata (raw ! i)))"
proof
  assume r: "request f = Inr (Body raw)"
  have g: "getConversation clock f = Inr (map_messages clock 0 raw)"
    using r by (simp add: getConversation_def)
  have "\<forall>i < length raw.
              (wire_timestamp (raw ! i) = None \<longrightarrow>
                 msg_timestamp (map_messages clock 0 raw ! i) = Clock (clock i))
            \<and> (\<forall>s. wire_timestamp (raw ! i) = Some s \<and> s \<noteq> [] \<longrightarrow>
                    msg_timestamp (map_messages clock 0 raw ! i) = Date_of s)
            \<and> msg_id (map_messages clock 0 raw ! i) = wire_id (raw ! i)
            \<and> msg_content (map_messages clock 0 raw ! i) = wire_content (raw ! i)
            \<and> msg_sender (map_messages clock 0 raw ! i) = wire_sender (raw ! i)
            \<and> msg_type (map_messages clock 0 raw ! i) = wire_type (raw ! i)
            \<and> msg_category (map_messages clock 0 raw ! i) = wire_category (raw ! i)
            \<and> msg_metadata (map_messages clock 0 raw ! i) = wire_metadata (raw ! i)"
    by (simp add: nth_map_messages to_chat_message_def)
  with g show "\<exists>ms. getConversation clock f = Inr ms \<and> length ms = length raw
        \<and> (\<forall>i < length raw.
              (wire_timestamp (raw ! i) = None \<longrightarrow> msg_timestamp (ms ! i) = Clock (clock i))
            \<and> (\<forall>s. wire_timestamp (raw ! i) = Some s \<and> s \<noteq> [] \<longrightarrow>
                    msg_timestamp (ms ! i) = Date_of s)
            \<and> msg_id (ms ! i) = wire_id (raw ! i)
            \<and> msg_content (ms ! i) = wire_content (raw ! i)
            \<and> msg_sender (ms ! i) = wire_sender (raw ! i)
            \<and> msg_type (ms ! i) = wire_type (raw ! i)
            \<and> msg_category (ms ! i) = wire_category (raw ! i)
            \<and> msg_metadata (ms ! i) = wire_metadata (raw ! i))"
    using length_map_messages [of clock 0 raw] by blast
qed

theorem getConversation_timestamps_witness:
  "(let stamped = \<lparr>wire_id = ''m1'', wire_content = ''hello'', wire_sender = User,
                     wire_timestamp = Some ''2024-03-01T10:00:00Z'', wire_type = None,
                     wire_category = Some General, wire_metadata = (None :: unit option)\<rparr>;
        bare = stamped\<lparr>wire_id := ''m2'', wire_sender := Ai, wire_timestamp := None\<rparr>
    in getConversation (\<lambda>i. 1000 + i) (Fetch_resolved (Response_ok (Some (Body [stamped, bare])))) =
         Inr [\<lparr>msg_id = ''m1'', msg_content = ''hello'', msg_sender = User,
               msg_timestamp = Date_of ''2024-03-01T10:00:00Z'', msg_type = None,
               msg_category = Some General, msg_metadata = None\<rparr>,
              \<lparr>msg_id = ''m2'', msg_content = ''hello'', msg_sender = Ai,
               msg_timestamp = Clock 1001, msg_type = None,
               msg_category = Some General, msg_metadata = None\<rparr>])"
proof -
  define stamped where "stamped = \<lparr>wire_id = ''m1'', wire_content = ''hello'', wire_sender = User,
                     wire_timestamp = Some ''2024-03-01T10:00:00Z'', wire_type = None,
                     wire_category = Some General, wire_metadata = (None :: unit option)\<rparr>"
  define bare where "bare = stamped\<lparr>wire_id := ''m2'', wire_sender := Ai, wire_timestamp := None\<rparr>"
  define f where "f = Fetch_resolved (Response_ok (Some (Body [stamped, bare])))"
  have r: "request f = Inr (Body [stamped, bare])"
    by (simp add: f_def request_def)
  obtain ms where g: "getConversation (\<lambda>i. 1000 + i) f = Inr ms" and l: "length ms = 2"
    and all: "\<forall>i < 2.
              (wire_timestamp ([stamped, bare] ! i) = None \<longrightarrow> msg_timestamp (ms ! i) = Clock (1000 + i))
            \<and> (\<forall>s. wire_timestamp ([stamped, bare] ! i) = Some s \<and> s \<noteq> [] \<longrightarrow>
                    msg_timestamp (ms ! i) = Date_of s)
            \<and> msg_id (ms ! i) = wire_id ([stamped, bare] ! i)
            \<and> msg_content (ms ! i) = wire_content ([stamped, bare] ! i)
            \<and> msg_sender (ms ! i) = wire_sender ([stamped, bare] ! i)
            \<and> msg_type (ms ! i) = wire_type ([stamped, bare] ! i)
            \<and> msg_category (ms ! i) = wire_category ([stamped, bare] ! i)
            \<and> msg_metadata (ms ! i) = wire_metadata ([stamped, bare] ! i)"
    using r getConversation_timestamps [of f "[stamped, bare]" "\<lambda>i. 1000 + i"] by auto
  obtain x y where ms: "ms = [x, y]"
    using l by (auto simp: length_Suc_conv numeral_2_eq_2)
  have "x = \<lparr>msg_id = ''m1'', msg_content = ''hello'', msg_sender = User,
               msg_timestamp = Date_of ''2024-03-01T10:00:00Z'', msg_type = None,
               msg_category = Some General, msg_metadata = None\<rparr>"
    using all [rule_format, of 0] by (simp add: ms stamped_def)
  moreover have "y = \<lparr>msg_id = ''m2'', msg_content = ''hello'', msg_sender = Ai,
               msg_timestamp = Clock 1001, msg_type = None,
               msg_category = Some General, msg_metadata = None\<rparr>"
    using all [rule_format, of 1] by (simp add: ms stamped_def bare_def)
  ultimately show ?thesis
    using g unfolding ms f_def stamped_def bare_def by (simp add: Let_def)
qed

end
